theory Spec2Isabelle
  imports Main "HOL-Library.Multiset"
begin

section \<open>The catalog application (app.py)\<close>

text \<open>
  The application keeps two JSON files (products, categories) and a folder of uploaded
  images. Every request handler reads the files, computes, and writes them back. The
  handlers are modelled as functions from the world before the request to a response and
  the world after it.
\<close>

subsection \<open>Library functions the application calls\<close>

text \<open>
  The functions of werkzeug, os.path, Flask, Pillow and the Python builtins that app.py
  calls are parameters of the model, collected in one record. \<open>None\<close> stands for a
  raised exception. \<open>'f\<close> is Python's float, \<open>'img\<close> is Pillow's Image.
\<close>

type_synonym bytes = string

record ('f, 'img) pylib =
  secure_filename :: "string \<Rightarrow> string"
  os_path_splitext :: "string \<Rightarrow> string \<times> string"
  lower :: "string \<Rightarrow> string"
  os_path_basename :: "string \<Rightarrow> string"
  url_for_uploaded_file :: "string \<Rightarrow> string"
  str :: "int \<Rightarrow> string"
  py_float :: "string \<Rightarrow> 'f option"
  py_int :: "string \<Rightarrow> int option"
  image_open :: "bytes \<Rightarrow> 'img option"
  image_mode :: "'img \<Rightarrow> string"
  image_size :: "'img \<Rightarrow> nat \<times> nat"
  image_convert :: "'img \<Rightarrow> string \<Rightarrow> 'img option"
  image_save :: "'img \<Rightarrow> string \<Rightarrow> nat \<Rightarrow> bytes option"

subsection \<open>Data model\<close>

text \<open>
  A product is the dict that \<open>admin\<close> writes (lines 156-164), with the types of the
  values it writes there: an int id, two strings, a float price, the image URL, an int
  category_id and an int views counter. The keys that the code reads through \<open>get\<close>
  or tests with \<open>in\<close> (image, category_id, views) may be absent; \<open>id\<close> is read
  with \<open>p['id']\<close> everywhere and is always there. A category is the dict that
  \<open>manage_categories\<close> writes (lines 251-255). Files holding JSON of another shape
  are outside the model.
\<close>

record 'f product =
  p_id :: int
  p_name :: string
  p_description :: string
  p_price :: 'f
  p_image :: "string option"
  p_category_id :: "int option"
  p_views :: "int option"

record category =
  c_id :: int
  c_name :: string
  c_image :: "string option"

text \<open>
  What \<open>open\<close> followed by \<open>json.load\<close> finds: no file (\<open>open\<close> raises
  FileNotFoundError), bytes that are not UTF-8 (reading raises UnicodeDecodeError), a text
  that is not JSON (parsing raises json.JSONDecodeError), or a decoded value.
  \<open>json.dump\<close> writes a value that \<open>json.load\<close> reads back as it was.
\<close>

datatype 'a json_file = Absent | NotUtf8 | Garbled | Json 'a

type_synonym folder = "string \<rightharpoonup> bytes"

record 'f world =
  products_file :: "'f product list json_file"
  categories_file :: "category list json_file"
  uploads :: folder

text \<open>A werkzeug FileStorage: the client's file name and the uploaded bytes.\<close>

record file_storage =
  filename :: string
  content :: bytes

datatype http_method = GET | POST

record request =
  form_name :: "string option"
  form_description :: "string option"
  form_price :: "string option"
  form_category_id :: "string option"
  files_image :: "file_storage option"

text \<open>
  The exceptions that the calls of app.py raise on the data of the model. One that no
  \<open>except\<close> catches ends the request with status 500 (the response \<open>Abort\<close>).
\<close>

datatype error =
    BadRequestKeyError | ValueError | FileNotFoundError | IsADirectoryError | IndexError
  | UnicodeDecodeError

datatype flash =
    ImageRequired | NotConverted | ProductAdded | ProductNotFound | ProductUpdated
  | ProductDeleted | CategoryImageRequired | CategoryAdded | CategoryNotFound
  | CategoryUpdated | CategoryDeleted nat

datatype endpoint = Admin | ManageCategories | RequestUrl

datatype response =
    Redirect endpoint "flash list"
  | Render string
  | Jsonify bool nat
  | Abort error

subsection \<open>save\_image (lines 49-74)\<close>

definition supported_formats_for_conversion :: "string list" where
  "supported_formats_for_conversion =
     [''.png'', ''.jpg'', ''.jpeg'', ''.bmp'', ''.gif'', ''.tiff'']"

definition original_extension :: "('f, 'img) pylib \<Rightarrow> file_storage \<Rightarrow> string" where
  "original_extension lib file =
     lower lib (snd (os_path_splitext lib (secure_filename lib (filename file))))"

text \<open>Lines 63-64: a palette image is converted to RGBA, any other is left as it is.\<close>

definition normalise_mode :: "('f, 'img) pylib \<Rightarrow> 'img \<Rightarrow> 'img option" where
  "normalise_mode lib img =
     (if image_mode lib img \<in> {''P'', ''PA''} then image_convert lib img ''RGBA''
      else Some img)"

text \<open>
  The body of the \<open>try\<close> (lines 62-65); \<open>None\<close> when any call in it raises. A
  \<open>save\<close> that raises leaves no file behind.
\<close>

definition convert_to_webp :: "('f, 'img) pylib \<Rightarrow> bytes \<Rightarrow> bytes option" where
  "convert_to_webp lib data =
     (case image_open lib data of
        None \<Rightarrow> None
      | Some img \<Rightarrow>
          (case normalise_mode lib img of
             None \<Rightarrow> None
           | Some img' \<Rightarrow> image_save lib img' ''webp'' 85))"

definition save_image ::
  "('f, 'img) pylib \<Rightarrow> file_storage \<Rightarrow> folder \<Rightarrow> string \<Rightarrow> (string \<times> bool) \<times> folder" where
  "save_image lib file output_folder basename =
     (let ext = original_extension lib file;
          final_filename = basename @ ext;
          fallback = ((final_filename, False), output_folder(final_filename \<mapsto> content file))
      in if ext \<in> set supported_formats_for_conversion then
           (let webp_filename = basename @ ''.webp'' in
            case convert_to_webp lib (content file) of
              Some webp \<Rightarrow> ((webp_filename, True), output_folder(webp_filename \<mapsto> webp))
            | None \<Rightarrow> fallback)
         else fallback)"

subsection \<open>The JSON files (lines 77-101)\<close>

definition save_products :: "'f product list \<Rightarrow> 'f world \<Rightarrow> 'f world" where
  "save_products products w = w\<lparr>products_file := Json products\<rparr>"

text \<open>
  Lines 78-84: the \<open>except\<close> names FileNotFoundError and json.JSONDecodeError, so
  the UnicodeDecodeError of a file that is not UTF-8 leaves \<open>load_products\<close>.
\<close>

definition load_products :: "'f world \<Rightarrow> error + 'f product list \<times> 'f world" where
  "load_products w =
     (case products_file w of
        Json products \<Rightarrow> Inr (products, w)
      | Absent \<Rightarrow> Inr ([], save_products [] w)
      | Garbled \<Rightarrow> Inr ([], save_products [] w)
      | NotUtf8 \<Rightarrow> Inl UnicodeDecodeError)"

definition save_categories :: "category list \<Rightarrow> 'f world \<Rightarrow> 'f world" where
  "save_categories categories w = w\<lparr>categories_file := Json categories\<rparr>"

definition load_categories :: "'f world \<Rightarrow> error + category list \<times> 'f world" where
  "load_categories w =
     (case categories_file w of
        Json categories \<Rightarrow> Inr (categories, w)
      | Absent \<Rightarrow> Inr ([], save_categories [] w)
      | Garbled \<Rightarrow> Inr ([], save_categories [] w)
      | NotUtf8 \<Rightarrow> Inl UnicodeDecodeError)"

subsection \<open>Removing an image file\<close>

text \<open>
  The upload folder is a flat map from file names to contents.
  \<open>os.remove(os.path.join(UPLOAD_FOLDER, name))\<close> deletes the named file and raises
  FileNotFoundError when there is none; with the empty name the path is the upload folder
  itself, and \<open>os.remove\<close> raises IsADirectoryError.
\<close>

definition os_remove :: "string \<Rightarrow> folder \<Rightarrow> error + folder" where
  "os_remove name dir =
     (if name = [] then Inl IsADirectoryError
      else (case dir name of
              None \<Rightarrow> Inl FileNotFoundError
            | Some _ \<Rightarrow> Inr (dir(name := None))))"

text \<open>
  The block that every handler uses on an old image (for instance lines 219-224):
  \<^verbatim>\<open>
  if x.get('image'):
      try:
          filename = os.path.basename(x['image'])
          os.remove(os.path.join(UPLOAD_FOLDER, secure_filename(filename)))
      except (FileNotFoundError, IndexError):
          pass
  \<close>
\<close>

definition image_file :: "('f, 'img) pylib \<Rightarrow> string \<Rightarrow> string" where
  "image_file lib url = secure_filename lib (os_path_basename lib url)"

text \<open>
  The \<open>except\<close> catches FileNotFoundError and IndexError and goes on with the folder
  as it is; any other exception leaves the block, and the handler.
\<close>

definition remove_image ::
  "('f, 'img) pylib \<Rightarrow> string option \<Rightarrow> folder \<Rightarrow> error + folder" where
  "remove_image lib img dir =
     (case img of
        None \<Rightarrow> Inr dir
      | Some url \<Rightarrow>
          if url = [] then Inr dir
          else (case os_remove (image_file lib url) dir of
                  Inl e \<Rightarrow> if e \<in> {FileNotFoundError, IndexError} then Inr dir else Inl e
                | Inr dir' \<Rightarrow> Inr dir'))"



subsection \<open>Helpers shared by the handlers\<close>

text \<open>\<open>max([x['id'] for x in xs]) + 1 if xs else 1\<close> (lines 141 and 236).\<close>

definition new_id :: "int list \<Rightarrow> int" where
  "new_id ids = (if ids = [] then 1 else Max (set ids) + 1)"

text \<open>
  \<open>'image' in request.files and request.files['image'].filename != ''\<close>: the uploaded
  file, when there is one.
\<close>

definition uploaded_image :: "request \<Rightarrow> file_storage option" where
  "uploaded_image req =
     (case files_image req of
        None \<Rightarrow> None
      | Some file \<Rightarrow> if filename file = [] then None else Some file)"

text \<open>
  The four form reads of a product, in the order of lines 158-162 and 184-187. A missing
  key raises BadRequestKeyError, a text that \<open>float\<close> or \<open>int\<close> rejects raises
  ValueError.
\<close>

definition read_product_form ::
  "('f, 'img) pylib \<Rightarrow> request \<Rightarrow> error + (string \<times> string \<times> 'f \<times> int)" where
  "read_product_form lib req =
     (case form_name req of
        None \<Rightarrow> Inl BadRequestKeyError
      | Some name \<Rightarrow>
     (case form_description req of
        None \<Rightarrow> Inl BadRequestKeyError
      | Some description \<Rightarrow>
     (case form_price req of
        None \<Rightarrow> Inl BadRequestKeyError
      | Some price_text \<Rightarrow>
     (case py_float lib price_text of
        None \<Rightarrow> Inl ValueError
      | Some price \<Rightarrow>
     (case form_category_id req of
        None \<Rightarrow> Inl BadRequestKeyError
      | Some category_text \<Rightarrow>
     (case py_int lib category_text of
        None \<Rightarrow> Inl ValueError
      | Some category_id \<Rightarrow> Inr (name, description, price, category_id)))))))"

text \<open>
  \<open>next((x for x in xs if P x), None)\<close> is \<open>find P xs\<close>. The handlers then mutate the
  dict they found, which is the first element of the list that satisfies \<open>P\<close>.
\<close>

fun update_first :: "('a \<Rightarrow> bool) \<Rightarrow> ('a \<Rightarrow> 'a) \<Rightarrow> 'a list \<Rightarrow> 'a list" where
  "update_first P f [] = []"
| "update_first P f (x # xs) = (if P x then f x # xs else x # update_first P f xs)"

definition warnings :: "bool \<Rightarrow> flash list" where
  "warnings converted = (if converted then [] else [NotConverted])"

subsection \<open>index (lines 107-113)\<close>

text \<open>
  \<open>sorted(xs, key=k, reverse=True)\<close>: CPython reverses the list, sorts it stably in
  ascending order of the key, and reverses the result.
\<close>

definition sorted_reverse :: "('a \<Rightarrow> int) \<Rightarrow> 'a list \<Rightarrow> 'a list" where
  "sorted_reverse k xs = rev (sort_key k (rev xs))"

definition views_key :: "'f product \<Rightarrow> int" where
  "views_key x = (case p_views x of None \<Rightarrow> 0 | Some v \<Rightarrow> v)"

definition featured_products :: "'f product list \<Rightarrow> 'f product list" where
  "featured_products products =
     take 4 (sorted_reverse views_key (filter (\<lambda>p. p_views p \<noteq> None) products))"

definition index ::
  "'f world \<Rightarrow> (error + 'f product list \<times> category list \<times> 'f product list) \<times> 'f world"
  where
  "index w =
     (case load_products w of
        Inl e \<Rightarrow> (Inl e, w)
      | Inr (products, w1) \<Rightarrow>
          (case load_categories w1 of
             Inl e \<Rightarrow> (Inl e, w1)
           | Inr (categories, w2) \<Rightarrow>
               (Inr (products, categories, featured_products products), w2)))"

subsection \<open>admin (lines 136-172)\<close>

text \<open>
  Both branches of \<open>admin\<close> begin with \<open>load_products\<close> (lines 140 and 170), so
  the model loads once, before the test of the method.
\<close>

definition admin ::
  "('f, 'img) pylib \<Rightarrow> http_method \<Rightarrow> request \<Rightarrow> 'f world \<Rightarrow> response \<times> 'f world" where
  "admin lib method req w =
     (case load_products w of
        Inl e \<Rightarrow> (Abort e, w)
      | Inr (products, w1) \<Rightarrow>
          if method = POST then
            (let new = new_id (map p_id products)
             in case uploaded_image req of
                  None \<Rightarrow> (Redirect RequestUrl [ImageRequired], w1)
                | Some file \<Rightarrow>
                    (let ((new_filename, converted), dir) =
                           save_image lib file (uploads w1) (''product_'' @ str lib new);
                         w2 = w1\<lparr>uploads := dir\<rparr>;
                         image_url = url_for_uploaded_file lib new_filename
                     in case read_product_form lib req of
                          Inl e \<Rightarrow> (Abort e, w2)
                        | Inr (name, description, price, category_id) \<Rightarrow>
                            (Redirect Admin (warnings converted @ [ProductAdded]),
                             save_products
                               (products @
                                [\<lparr>p_id = new, p_name = name, p_description = description,
                                  p_price = price, p_image = Some image_url,
                                  p_category_id = Some category_id, p_views = Some 0\<rparr>])
                               w2)))
          else
            (case load_categories w1 of
               Inl e \<Rightarrow> (Abort e, w1)
             | Inr (categories, w2) \<Rightarrow> (Render ''admin.html'', w2)))"

subsection \<open>edit\_product (lines 174-211)\<close>

definition edit_product ::
  "('f, 'img) pylib \<Rightarrow> int \<Rightarrow> http_method \<Rightarrow> request \<Rightarrow> int \<Rightarrow> 'f world
     \<Rightarrow> response \<times> 'f world" where
  "edit_product lib now method req product_id w =
     (case load_products w of
        Inl e \<Rightarrow> (Abort e, w)
      | Inr (products, w1) \<Rightarrow>
     (case find (\<lambda>p. p_id p = product_id) products of
        None \<Rightarrow> (Redirect Admin [ProductNotFound], w1)
      | Some product_to_edit \<Rightarrow>
          if method = POST then
            (case read_product_form lib req of
               Inl e \<Rightarrow> (Abort e, w1)
             | Inr (name, description, price, category_id) \<Rightarrow>
                 (let edit = (\<lambda>p. p\<lparr>p_name := name, p_description := description,
                                     p_price := price, p_category_id := Some category_id\<rparr>)
                  in case uploaded_image req of
                       Some file \<Rightarrow>
                         (case remove_image lib (p_image product_to_edit) (uploads w1) of
                            Inl e \<Rightarrow> (Abort e, w1)
                          | Inr dir1 \<Rightarrow>
                              (let ((new_filename, converted), dir2) =
                                     save_image lib file dir1
                                       (''product_'' @ str lib product_id @ ''_'' @
                                        str lib now);
                                   image_url = url_for_uploaded_file lib new_filename
                               in (Redirect Admin (warnings converted @ [ProductUpdated]),
                                   save_products
                                     (update_first (\<lambda>p. p_id p = product_id)
                                        (\<lambda>p. (edit p)\<lparr>p_image := Some image_url\<rparr>)
                                        products)
                                     (w1\<lparr>uploads := dir2\<rparr>))))
                     | None \<Rightarrow>
                         (Redirect Admin [ProductUpdated],
                          save_products
                            (update_first (\<lambda>p. p_id p = product_id) edit products) w1)))
          else
            (case load_categories w1 of
               Inl e \<Rightarrow> (Abort e, w1)
             | Inr (categories, w2) \<Rightarrow> (Render ''edit_product.html'', w2))))"

subsection \<open>delete\_product (lines 213-229)\<close>

definition delete_product ::
  "('f, 'img) pylib \<Rightarrow> int \<Rightarrow> 'f world \<Rightarrow> response \<times> 'f world" where
  "delete_product lib product_id w =
     (case load_products w of
        Inl e \<Rightarrow> (Abort e, w)
      | Inr (products, w1) \<Rightarrow>
          (case (case find (\<lambda>p. p_id p = product_id) products of
                   None \<Rightarrow> Inr (uploads w1)
                 | Some product_to_delete \<Rightarrow>
                     remove_image lib (p_image product_to_delete) (uploads w1)) of
             Inl e \<Rightarrow> (Abort e, w1)
           | Inr dir \<Rightarrow>
               (Redirect Admin [ProductDeleted],
                save_products (filter (\<lambda>p. p_id p \<noteq> product_id) products)
                  (w1\<lparr>uploads := dir\<rparr>))))"

subsection \<open>manage\_categories (lines 231-262)\<close>

definition manage_categories ::
  "('f, 'img) pylib \<Rightarrow> http_method \<Rightarrow> request \<Rightarrow> 'f world \<Rightarrow> response \<times> 'f world" where
  "manage_categories lib method req w =
     (case load_categories w of
        Inl e \<Rightarrow> (Abort e, w)
      | Inr (categories, w1) \<Rightarrow>
          if method = POST then
            (let new = new_id (map c_id categories)
             in case uploaded_image req of
                  None \<Rightarrow> (Redirect RequestUrl [CategoryImageRequired], w1)
                | Some file \<Rightarrow>
                    (let ((new_filename, converted), dir) =
                           save_image lib file (uploads w1) (''category_'' @ str lib new);
                         w2 = w1\<lparr>uploads := dir\<rparr>;
                         image_url = url_for_uploaded_file lib new_filename
                     in case form_name req of
                          None \<Rightarrow> (Abort BadRequestKeyError, w2)
                        | Some name \<Rightarrow>
                            (Redirect ManageCategories (warnings converted @ [CategoryAdded]),
                             save_categories
                               (categories @
                                [\<lparr>c_id = new, c_name = name, c_image = Some image_url\<rparr>])
                               w2)))
          else (Render ''categories.html'', w1))"

subsection \<open>edit\_category (lines 264-298)\<close>

definition edit_category ::
  "('f, 'img) pylib \<Rightarrow> int \<Rightarrow> http_method \<Rightarrow> request \<Rightarrow> int \<Rightarrow> 'f world
     \<Rightarrow> response \<times> 'f world" where
  "edit_category lib now method req category_id w =
     (case load_categories w of
        Inl e \<Rightarrow> (Abort e, w)
      | Inr (categories, w1) \<Rightarrow>
     (case find (\<lambda>c. c_id c = category_id) categories of
        None \<Rightarrow> (Redirect ManageCategories [CategoryNotFound], w1)
      | Some category_to_edit \<Rightarrow>
          if method = POST then
            (case form_name req of
               None \<Rightarrow> (Abort BadRequestKeyError, w1)
             | Some name \<Rightarrow>
                 (case uploaded_image req of
                    Some file \<Rightarrow>
                      (case remove_image lib (c_image category_to_edit) (uploads w1) of
                         Inl e \<Rightarrow> (Abort e, w1)
                       | Inr dir1 \<Rightarrow>
                           (let ((new_filename, converted), dir2) =
                                  save_image lib file dir1
                                    (''category_'' @ str lib category_id @ ''_'' @
                                     str lib now);
                                image_url = url_for_uploaded_file lib new_filename
                            in (Redirect ManageCategories
                                  (warnings converted @ [CategoryUpdated]),
                                save_categories
                                  (update_first (\<lambda>c. c_id c = category_id)
                                     (\<lambda>c. c\<lparr>c_name := name, c_image := Some image_url\<rparr>)
                                     categories)
                                  (w1\<lparr>uploads := dir2\<rparr>))))
                  | None \<Rightarrow>
                      (Redirect ManageCategories [CategoryUpdated],
                       save_categories
                         (update_first (\<lambda>c. c_id c = category_id)
                            (\<lambda>c. c\<lparr>c_name := name\<rparr>) categories)
                         w1)))
          else (Render ''edit_category.html'', w1)))"

subsection \<open>delete\_category (lines 300-339)\<close>



subsection \<open>record\_view (lines 351-361)\<close>

definition record_view :: "int \<Rightarrow> 'f world \<Rightarrow> response \<times> 'f world" where
  "record_view product_id w =
     (case load_products w of
        Inl e \<Rightarrow> (Abort e, w)
      | Inr (products, w1) \<Rightarrow>
     (case find (\<lambda>p. p_id p = product_id) products of
        Some product \<Rightarrow>
          (Jsonify True 200,
           save_products
             (update_first (\<lambda>p. p_id p = product_id)
                (\<lambda>p. p\<lparr>p_views := Some ((case p_views p of None \<Rightarrow> 0 | Some v \<Rightarrow> v) + 1)\<rparr>)
                products)
             w1)
      | None \<Rightarrow> (Jsonify False 404, w1)))"

subsection \<open>Referential integrity of the catalog\<close>





subsection \<open>A small library instance, for evaluating the handlers\<close>

text \<open>
  Simple stand-ins for the library on ASCII names: the extension starts at the last dot,
  the base name after the last slash, numbers are printed and read in decimal. Images are
  a mode and a size; four uploads decode, to a P, an RGB, a PA and an empty RGB image.
  Converting a PA image raises, and so does saving an image of size 0.
\<close>

definition ascii_lower :: "string \<Rightarrow> string" where
  "ascii_lower s =
     map (\<lambda>c. case map_of (zip ''ABCDEFGHIJKLMNOPQRSTUVWXYZ'' ''abcdefghijklmnopqrstuvwxyz'') c of
                None \<Rightarrow> c
              | Some l \<Rightarrow> l) s"

definition last_dot_ext :: "string \<Rightarrow> string \<times> string" where
  "last_dot_ext s =
     (let e = rev (takeWhile (\<lambda>c. c \<noteq> CHR ''.'') (rev s))
      in if CHR ''.'' \<in> set s then (take (length s - length e - 1) s, CHR ''.'' # e)
         else (s, []))"

definition after_last_slash :: "string \<Rightarrow> string" where
  "after_last_slash s = rev (takeWhile (\<lambda>c. c \<noteq> CHR ''/'') (rev s))"

fun decimal :: "nat \<Rightarrow> string" where
  "decimal n =
     (if n < 10 then [''0123456789'' ! n]
      else decimal (n div 10) @ [''0123456789'' ! (n mod 10)])"

declare decimal.simps [simp del]

definition digits_value :: "string \<Rightarrow> int option" where
  "digits_value s =
     (if s \<noteq> [] \<and> (\<forall>c \<in> set s. 48 \<le> (of_char c :: nat) \<and> (of_char c :: nat) \<le> 57)
      then Some (foldl (\<lambda>a c. 10 * a + (int (of_char c) - 48)) 0 s)
      else None)"

definition sample_lib :: "(int, string \<times> nat \<times> nat) pylib" where
  "sample_lib =
     \<lparr>secure_filename = (\<lambda>s. s),
      os_path_splitext = last_dot_ext,
      lower = ascii_lower,
      os_path_basename = after_last_slash,
      url_for_uploaded_file = (\<lambda>name. ''/uploads/'' @ name),
      str = (\<lambda>i. if i < 0 then CHR ''-'' # decimal (nat (- i)) else decimal (nat i)),
      py_float = digits_value,
      py_int = digits_value,
      image_open = (\<lambda>data. if data = ''palette'' then Some (''P'', 2, 3)
                            else if data = ''truecolour'' then Some (''RGB'', 4, 5)
                            else if data = ''alpha-palette'' then Some (''PA'', 2, 3)
                            else if data = ''nothing'' then Some (''RGB'', 0, 0)
                            else None),
      image_mode = fst,
      image_size = snd,
      image_convert = (\<lambda>img mode. if fst img = ''PA'' then None else Some (mode, snd img)),
      image_save = (\<lambda>img format quality. if snd img = (0, 0) then None
                                           else Some (format @ '':'' @ fst img))\<rparr>"

lemmas sample_lib_defs =
  sample_lib_def ascii_lower_def last_dot_ext_def after_last_slash_def digits_value_def
  decimal.simps

text \<open>A catalog of seven products in two categories; the image of product 4 is lost.\<close>

definition item :: "int \<Rightarrow> int \<Rightarrow> int option \<Rightarrow> string option \<Rightarrow> int product" where
  "item i c v img =
     \<lparr>p_id = i, p_name = ''item'', p_description = ''an item'', p_price = 10,
      p_image = img, p_category_id = Some c, p_views = v\<rparr>"

definition sample_products :: "int product list" where
  "sample_products =
     [item 1 1 (Some 5) (Some ''/uploads/product_1.webp''),
      item 2 2 None (Some ''/uploads/product_2.png''),
      item 4 1 (Some 9) (Some ''/uploads/lost.webp''),
      item 5 2 (Some 0) None,
      item 6 2 (Some 7) None,
      item 7 2 (Some 9) None,
      item 8 2 (Some 2) None]"

definition sample_categories :: "category list" where
  "sample_categories =
     [\<lparr>c_id = 1, c_name = ''kitchen'', c_image = Some ''/uploads/category_1.webp''\<rparr>,
      \<lparr>c_id = 2, c_name = ''garden'', c_image = Some ''/uploads/gone.webp''\<rparr>]"

definition sample_uploads :: folder where
  "sample_uploads =
     [''product_1.webp'' \<mapsto> ''one'', ''product_2.png'' \<mapsto> ''two'',
      ''category_1.webp'' \<mapsto> ''three'']"

definition sample_world :: "int world" where
  "sample_world =
     \<lparr>products_file = Json sample_products, categories_file = Json sample_categories,
      uploads = sample_uploads\<rparr>"

definition empty_world :: "int world" where
  "empty_world = \<lparr>products_file = Absent, categories_file = Garbled, uploads = Map.empty\<rparr>"

text \<open>Two files that are not UTF-8.\<close>

definition unreadable_world :: "int world" where
  "unreadable_world =
     \<lparr>products_file = NotUtf8, categories_file = NotUtf8, uploads = Map.empty\<rparr>"


definition sample_request :: request where
  "sample_request =
     \<lparr>form_name = Some ''mug'', form_description = Some ''a mug'', form_price = Some ''12'',
      form_category_id = Some ''2'',
      files_image = Some \<lparr>filename = ''Mug.PNG'', content = ''truecolour''\<rparr>\<rparr>"


lemmas sample_data_defs =
  item_def sample_products_def sample_categories_def sample_uploads_def sample_world_def
  empty_world_def sample_request_def

section \<open>Properties\<close>

subsection \<open>Loading a collection\<close>

lemma load_products_file:
  "load_products w = Inr (ps, w1) \<Longrightarrow> products_file w1 = Json ps"
  by (auto simp: load_products_def save_products_def split: json_file.splits)

lemma load_categories_file:
  "load_categories w = Inr (cs, w1) \<Longrightarrow> categories_file w1 = Json cs"
  by (auto simp: load_categories_def save_categories_def split: json_file.splits)

text \<open>
  C5, as the code has it. Loading the products or the categories: when the file is
  missing or its text is not JSON, the load returns the empty list and the file is
  rewritten as the empty list; when the file decodes, the load returns the decoded
  contents and changes nothing; when the file is not UTF-8, the load raises
  UnicodeDecodeError, which its \<open>except\<close> does not name.
\<close>

theorem load_collection:
  "(products_file w = Absent \<or> products_file w = Garbled \<longrightarrow>
      load_products w = Inr ([], w\<lparr>products_file := Json []\<rparr>)) \<and>
   (\<forall>products. products_file w = Json products \<longrightarrow> load_products w = Inr (products, w)) \<and>
   (products_file w = NotUtf8 \<longrightarrow> load_products w = Inl UnicodeDecodeError) \<and>
   (categories_file w = Absent \<or> categories_file w = Garbled \<longrightarrow>
      load_categories w = Inr ([], w\<lparr>categories_file := Json []\<rparr>)) \<and>
   (\<forall>categories. categories_file w = Json categories \<longrightarrow>
      load_categories w = Inr (categories, w)) \<and>
   (categories_file w = NotUtf8 \<longrightarrow> load_categories w = Inl UnicodeDecodeError)"
  by (auto simp: load_products_def save_products_def load_categories_def save_categories_def)

theorem load_collection_witness:
  "products_file empty_world = Absent \<and>
   load_products empty_world = Inr ([], empty_world\<lparr>products_file := Json []\<rparr>) \<and>
   categories_file empty_world = Garbled \<and>
   load_categories empty_world = Inr ([], empty_world\<lparr>categories_file := Json []\<rparr>) \<and>
   products_file sample_world = Json sample_products \<and>
   load_products sample_world = Inr (sample_products, sample_world) \<and>
   categories_file sample_world = Json sample_categories \<and>
   load_categories sample_world = Inr (sample_categories, sample_world) \<and>
   products_file unreadable_world = NotUtf8 \<and>
   load_products unreadable_world = Inl UnicodeDecodeError"
proof -
  have files:
    "products_file empty_world = Absent" "categories_file empty_world = Garbled"
    "products_file sample_world = Json sample_products"
    "categories_file sample_world = Json sample_categories"
    "products_file unreadable_world = NotUtf8"
    by (simp_all add: empty_world_def sample_world_def unreadable_world_def)
  show ?thesis
    using load_collection [of empty_world] load_collection [of sample_world]
      load_collection [of unreadable_world] files
    by simp
qed

text \<open>
  C5, as the claim states it, fails: products and categories files that are not UTF-8
  fail to decode, and the load returns no collection and rewrites nothing.
\<close>

theorem load_not_utf8_counterexample:
  "products_file unreadable_world = NotUtf8 \<and>
   load_products unreadable_world = Inl UnicodeDecodeError \<and>
   categories_file unreadable_world = NotUtf8 \<and>
   load_categories unreadable_world = Inl UnicodeDecodeError"
  by (simp add: load_products_def load_categories_def unreadable_world_def)

subsection \<open>Saving an uploaded image\<close>





subsection \<open>Finding and changing the first match\<close>

lemma load_products_world:
  "load_products w = Inr (ps, w1) \<Longrightarrow> w1 = w\<lparr>products_file := Json ps\<rparr>"
  by (auto simp: load_products_def save_products_def split: json_file.splits)

lemma load_categories_world:
  "load_categories w = Inr (cs, w1) \<Longrightarrow> w1 = w\<lparr>categories_file := Json cs\<rparr>"
  by (auto simp: load_categories_def save_categories_def split: json_file.splits)

lemma load_products_again: "load_products w = Inr (ps, w1) \<Longrightarrow> load_products w1 = Inr (ps, w1)"
  by (auto simp: load_products_def save_products_def split: json_file.splits)



lemma find_None_iff_all: "find P xs = None \<longleftrightarrow> (\<forall>x\<in>set xs. \<not> P x)"
  by (induction xs) auto

lemma update_first_find_Some:
  "find P xs = Some x \<Longrightarrow>
     \<exists>i<length xs. xs ! i = x \<and> P x \<and> (\<forall>j<i. \<not> P (xs ! j)) \<and>
       update_first P f xs = xs[i := f x]"
proof (induction xs)
  case Nil
  then show ?case by simp
next
  case (Cons y ys)
  show ?case
  proof (cases "P y")
    case True
    with Cons.prems have "y = x" by simp
    with True show ?thesis by (intro exI [of _ 0]) simp
  next
    case False
    with Cons.prems have "find P ys = Some x" by simp
    from Cons.IH [OF this] obtain i where i: "i < length ys" "ys ! i = x" "P x"
      "\<forall>j<i. \<not> P (ys ! j)" "update_first P f ys = ys[i := f x]"
      by blast
    have "\<forall>j<Suc i. \<not> P ((y # ys) ! j)"
      using False i(4) by (auto simp: less_Suc_eq_0_disj)
    with i False show ?thesis by (intro exI [of _ "Suc i"]) simp
  qed
qed

subsection \<open>New ids\<close>

text \<open>
  C4. A POST to \<open>admin\<close> that carries an image and a form that parses appends one
  product to the products collection, and its id is the greatest id of the collection
  plus one, or 1 when the collection is empty; a POST without an image or with a form
  that does not parse creates nothing. The same holds of \<open>manage_categories\<close> and the
  categories collection.
\<close>

theorem new_record_ids:
  "(load_products w = Inr (products, w1) \<longrightarrow>
      (\<forall>upload form.
         uploaded_image req = Some upload \<and> read_product_form lib req = Inr form \<longrightarrow>
         (\<exists>p. products_file (snd (admin lib POST req w)) = Json (products @ [p]) \<and>
              p_id p = (if products = [] then 1 else Max (set (map p_id products)) + 1))) \<and>
      (uploaded_image req = None \<or> (\<exists>e. read_product_form lib req = Inl e) \<longrightarrow>
         products_file (snd (admin lib POST req w)) = Json products)) \<and>
   (load_categories w = Inr (categories, w2) \<longrightarrow>
      (\<forall>upload name.
         uploaded_image req = Some upload \<and> form_name req = Some name \<longrightarrow>
         (\<exists>c. categories_file (snd (manage_categories lib POST req w)) =
                Json (categories @ [c]) \<and>
              c_id c = (if categories = [] then 1 else Max (set (map c_id categories)) + 1))) \<and>
      (uploaded_image req = None \<or> form_name req = None \<longrightarrow>
         categories_file (snd (manage_categories lib POST req w)) = Json categories))"
proof (intro conjI impI allI)
  fix upload form
  assume l: "load_products w = Inr (products, w1)"
    and r: "uploaded_image req = Some upload \<and> read_product_form lib req = Inr form"
  obtain name description price category_id
    where form: "form = (name, description, price, category_id)"
    by (cases form) auto
  obtain nf conv dir where s: "save_image lib upload (uploads w1)
      (''product_'' @ str lib (new_id (map p_id products))) = ((nf, conv), dir)"
    by (metis surj_pair)
  show "\<exists>p. products_file (snd (admin lib POST req w)) = Json (products @ [p]) \<and>
              p_id p = (if products = [] then 1 else Max (set (map p_id products)) + 1)"
    using l r form s by (simp add: admin_def Let_def save_products_def new_id_def)
next
  assume l: "load_products w = Inr (products, w1)"
    and r: "uploaded_image req = None \<or> (\<exists>e. read_product_form lib req = Inl e)"
  from l have f: "products_file w1 = Json products" by (rule load_products_file)
  show "products_file (snd (admin lib POST req w)) = Json products"
  proof (cases "uploaded_image req")
    case None
    with l f show ?thesis by (simp add: admin_def Let_def)
  next
    case (Some upload)
    with r obtain e where e: "read_product_form lib req = Inl e" by auto
    obtain nf conv dir where s: "save_image lib upload (uploads w1)
      (''product_'' @ str lib (new_id (map p_id products))) = ((nf, conv), dir)"
      by (metis surj_pair)
    show ?thesis using l f Some e s by (simp add: admin_def Let_def)
  qed
next
  fix upload name
  assume l: "load_categories w = Inr (categories, w2)"
    and r: "uploaded_image req = Some upload \<and> form_name req = Some name"
  obtain nf conv dir where s: "save_image lib upload (uploads w2)
      (''category_'' @ str lib (new_id (map c_id categories))) = ((nf, conv), dir)"
    by (metis surj_pair)
  show "\<exists>c. categories_file (snd (manage_categories lib POST req w)) =
               Json (categories @ [c]) \<and>
             c_id c = (if categories = [] then 1 else Max (set (map c_id categories)) + 1)"
    using l r s by (simp add: manage_categories_def Let_def save_categories_def new_id_def)
next
  assume l: "load_categories w = Inr (categories, w2)"
    and r: "uploaded_image req = None \<or> form_name req = None"
  from l have f: "categories_file w2 = Json categories" by (rule load_categories_file)
  show "categories_file (snd (manage_categories lib POST req w)) = Json categories"
  proof (cases "uploaded_image req")
    case None
    with l f show ?thesis by (simp add: manage_categories_def Let_def)
  next
    case (Some upload)
    with r have e: "form_name req = None" by auto
    obtain nf conv dir where s: "save_image lib upload (uploads w2)
      (''category_'' @ str lib (new_id (map c_id categories))) = ((nf, conv), dir)"
      by (metis surj_pair)
    show ?thesis using l f Some e s by (simp add: manage_categories_def Let_def)
  qed
qed

theorem new_record_ids_witness:
  "load_products sample_world = Inr (sample_products, sample_world) \<and>
   uploaded_image sample_request = Some \<lparr>filename = ''Mug.PNG'', content = ''truecolour''\<rparr> \<and>
   read_product_form sample_lib sample_request = Inr (''mug'', ''a mug'', 12, 2) \<and>
   (\<exists>p. products_file (snd (admin sample_lib POST sample_request sample_world)) =
          Json (sample_products @ [p]) \<and> p_id p = 9) \<and>
   load_products empty_world = Inr ([], empty_world\<lparr>products_file := Json []\<rparr>) \<and>
   (\<exists>p. products_file (snd (admin sample_lib POST sample_request empty_world)) = Json [p] \<and>
        p_id p = 1) \<and>
   load_categories sample_world = Inr (sample_categories, sample_world) \<and>
   (\<exists>c. categories_file (snd (manage_categories sample_lib POST sample_request sample_world)) =
          Json (sample_categories @ [c]) \<and> c_id c = 3) \<and>
   uploaded_image (sample_request\<lparr>files_image := None\<rparr>) = None \<and>
   products_file (snd (admin sample_lib POST (sample_request\<lparr>files_image := None\<rparr>)
     sample_world)) = Json sample_products"
proof -
  have l1: "load_products sample_world = Inr (sample_products, sample_world)"
    by (simp add: load_products_def sample_world_def)
  have l2: "load_products empty_world = Inr ([], empty_world\<lparr>products_file := Json []\<rparr>)"
    by (simp add: load_products_def save_products_def empty_world_def)
  have l3: "load_categories sample_world = Inr (sample_categories, sample_world)"
    by (simp add: load_categories_def sample_world_def)
  have u: "uploaded_image sample_request =
             Some \<lparr>filename = ''Mug.PNG'', content = ''truecolour''\<rparr>"
    by (simp add: uploaded_image_def sample_request_def)
  have un: "uploaded_image (sample_request\<lparr>files_image := None\<rparr>) = None"
    by (simp add: uploaded_image_def sample_request_def)
  have f: "read_product_form sample_lib sample_request = Inr (''mug'', ''a mug'', 12, 2)"
    by (simp add: read_product_form_def sample_request_def sample_lib_defs)
  have n: "form_name sample_request = Some ''mug''"
    by (simp add: sample_request_def)
  have m1: "Max (set (map p_id sample_products)) + 1 = 9" "sample_products \<noteq> []"
    by (simp_all add: sample_products_def item_def)
  have m2: "Max (set (map c_id sample_categories)) + 1 = 3" "sample_categories \<noteq> []"
    by (simp_all add: sample_categories_def)
  show ?thesis
    using
      new_record_ids [of sample_world sample_products sample_world sample_request sample_lib
        sample_categories sample_world]
      new_record_ids [of empty_world "[]" "empty_world\<lparr>products_file := Json []\<rparr>"
        sample_request sample_lib "[]" empty_world]
      new_record_ids [of sample_world sample_products sample_world
        "sample_request\<lparr>files_image := None\<rparr>" sample_lib sample_categories sample_world]
      l1 l2 l3 u un f n m1 m2
    by simp
qed

subsection \<open>Recording a view\<close>

text \<open>
  C6. When some product of the store has the given id, \<open>record_view\<close> answers success
  and the store differs in one place: the first product with that id has its views
  counter one higher (counted from 0 when it had none); its other fields, the other
  products, the categories and the uploads are as before. When no product has the id,
  the answer is 404 and the products collection is the same.
\<close>

theorem record_view_counts:
  assumes "load_products w = Inr (products, w1)"
  shows "(product_id \<in> set (map p_id products) \<longrightarrow>
            (\<exists>i<length products.
               p_id (products ! i) = product_id \<and>
               (\<forall>j<i. p_id (products ! j) \<noteq> product_id) \<and>
               record_view product_id w =
                 (Jsonify True 200,
                  w\<lparr>products_file :=
                      Json (products[i := (products ! i)
                              \<lparr>p_views := Some ((case p_views (products ! i) of
                                                   None \<Rightarrow> 0 | Some v \<Rightarrow> v) + 1)\<rparr>])\<rparr>))) \<and>
         (product_id \<notin> set (map p_id products) \<longrightarrow>
            record_view product_id w = (Jsonify False 404, w1) \<and>
            load_products w1 = Inr (products, w1) \<and>
            categories_file w1 = categories_file w \<and> uploads w1 = uploads w)"
proof (rule conjI; rule impI)
  assume "product_id \<in> set (map p_id products)"
  then have "find (\<lambda>p. p_id p = product_id) products \<noteq> None"
    by (auto simp: find_None_iff_all)
  then obtain x where x: "find (\<lambda>p. p_id p = product_id) products = Some x" by auto
  let ?f = "\<lambda>p. p\<lparr>p_views := Some ((case p_views p of None \<Rightarrow> 0 | Some v \<Rightarrow> v) + 1)\<rparr>"
  from update_first_find_Some [OF x, of ?f]
  obtain i where i: "i < length products" "products ! i = x" "p_id x = product_id"
    "\<forall>j<i. p_id (products ! j) \<noteq> product_id"
    "update_first (\<lambda>p. p_id p = product_id) ?f products = products[i := ?f x]"
    by blast
  have w1: "w1 = w\<lparr>products_file := Json products\<rparr>"
    using assms by (rule load_products_world)
  have "record_view product_id w =
          (Jsonify True 200, w\<lparr>products_file := Json (products[i := ?f (products ! i)])\<rparr>)"
    using assms x i(2,5) w1 by (simp add: record_view_def save_products_def)
  with i show "\<exists>i<length products.
               p_id (products ! i) = product_id \<and>
               (\<forall>j<i. p_id (products ! j) \<noteq> product_id) \<and>
               record_view product_id w =
                 (Jsonify True 200,
                  w\<lparr>products_file :=
                      Json (products[i := (products ! i)
                              \<lparr>p_views := Some ((case p_views (products ! i) of
                                                   None \<Rightarrow> 0 | Some v \<Rightarrow> v) + 1)\<rparr>])\<rparr>)"
    by blast
next
  assume "product_id \<notin> set (map p_id products)"
  then have n: "find (\<lambda>p. p_id p = product_id) products = None"
    by (auto simp: find_None_iff_all)
  show "record_view product_id w = (Jsonify False 404, w1) \<and>
        load_products w1 = Inr (products, w1) \<and>
        categories_file w1 = categories_file w \<and> uploads w1 = uploads w"
    using assms n load_products_again [OF assms] load_products_world [OF assms]
    by (simp add: record_view_def)
qed

theorem record_view_counts_witness:
  "load_products sample_world = Inr (sample_products, sample_world) \<and>
   2 \<in> set (map p_id sample_products) \<and>
   record_view 2 sample_world =
     (Jsonify True 200,
      sample_world\<lparr>products_file :=
        Json (sample_products[1 := item 2 2 (Some 1) (Some ''/uploads/product_2.png'')])\<rparr>) \<and>
   1 \<in> set (map p_id sample_products) \<and>
   record_view 1 sample_world =
     (Jsonify True 200,
      sample_world\<lparr>products_file :=
        Json (sample_products[0 := item 1 1 (Some 6) (Some ''/uploads/product_1.webp'')])\<rparr>) \<and>
   3 \<notin> set (map p_id sample_products) \<and>
   record_view 3 sample_world = (Jsonify False 404, sample_world) \<and>
   load_products empty_world = Inr ([], empty_world\<lparr>products_file := Json []\<rparr>) \<and>
   record_view 3 empty_world = (Jsonify False 404, empty_world\<lparr>products_file := Json []\<rparr>)"
proof -
  have l1: "load_products sample_world = Inr (sample_products, sample_world)"
    by (simp add: load_products_def sample_world_def)
  have l2: "load_products empty_world = Inr ([], empty_world\<lparr>products_file := Json []\<rparr>)"
    by (simp add: load_products_def save_products_def empty_world_def)
  have ids: "map p_id sample_products = [1, 2, 4, 5, 6, 7, 8]"
    by (simp add: sample_products_def item_def)
  have v2: "record_view 2 sample_world =
     (Jsonify True 200,
      sample_world\<lparr>products_file :=
        Json (sample_products[1 := item 2 2 (Some 1) (Some ''/uploads/product_2.png'')])\<rparr>)"
    by (simp add: record_view_def l1 save_products_def sample_products_def item_def)
  have v1: "record_view 1 sample_world =
     (Jsonify True 200,
      sample_world\<lparr>products_file :=
        Json (sample_products[0 := item 1 1 (Some 6) (Some ''/uploads/product_1.webp'')])\<rparr>)"
    by (simp add: record_view_def l1 save_products_def sample_products_def item_def)
  show ?thesis
    using record_view_counts [OF l1, of 2] record_view_counts [OF l1, of 1]
      record_view_counts [OF l1, of 3] record_view_counts [OF l2, of 3] l1 l2 ids v1 v2
    by simp
qed

subsection \<open>Deleting a product\<close>






subsection \<open>Featured products\<close>

lemma sorted_reverse_descending:
  "sorted_wrt (\<lambda>a b. k b \<le> k a) (sorted_reverse k xs)"
proof -
  have "sorted (map k (sort_key k (rev xs)))" by simp
  then have "sorted_wrt (\<lambda>a b. k a \<le> k b) (sort_key k (rev xs))"
    by (simp add: sorted_map)
  then show ?thesis
    by (simp add: sorted_reverse_def sorted_wrt_rev)
qed

lemma mset_sorted_reverse: "mset (sorted_reverse k xs) = mset xs"
  by (simp add: sorted_reverse_def)

text \<open>
  C9. The featured products of the index page are at most four, each is a product of the
  collection with a views field, they are in order of non-increasing views, and they
  leave out of the products with a views field only products (the list \<open>excluded\<close>) that
  have no more views than any featured one.
\<close>

theorem featured_products_top:
  "length (featured_products products) \<le> 4 \<and>
   (\<forall>p\<in>set (featured_products products). p \<in> set products \<and> p_views p \<noteq> None) \<and>
   sorted_wrt (\<lambda>a b. views_key b \<le> views_key a) (featured_products products) \<and>
   (\<exists>excluded.
      mset (featured_products products) + mset excluded =
        mset (filter (\<lambda>p. p_views p \<noteq> None) products) \<and>
      (\<forall>q\<in>set excluded. \<forall>p\<in>set (featured_products products). views_key q \<le> views_key p))"
proof -
  let ?viewed = "filter (\<lambda>p. p_views p \<noteq> None) products"
  let ?s = "sorted_reverse views_key ?viewed"
  have f: "featured_products products = take 4 ?s"
    by (simp add: featured_products_def)
  have d: "sorted_wrt (\<lambda>a b. views_key b \<le> views_key a) ?s"
    by (rule sorted_reverse_descending)
  have "length (featured_products products) \<le> 4"
    by (simp add: f)
  moreover have "\<forall>p\<in>set (featured_products products). p \<in> set products \<and> p_views p \<noteq> None"
  proof
    fix p assume "p \<in> set (featured_products products)"
    then have "p \<in> set ?s" unfolding f by (rule in_set_takeD)
    then have "p \<in># mset ?s" by simp
    then have "p \<in> set ?viewed" by (simp add: mset_sorted_reverse)
    then show "p \<in> set products \<and> p_views p \<noteq> None" by simp
  qed
  moreover have "sorted_wrt (\<lambda>a b. views_key b \<le> views_key a) (featured_products products)"
    unfolding f using d by (rule sorted_wrt_take)
  moreover have "mset (featured_products products) + mset (drop 4 ?s) = mset ?viewed"
  proof -
    have "mset (take 4 ?s) + mset (drop 4 ?s) = mset ?s"
      by (simp only: mset_append [symmetric] append_take_drop_id)
    also have "\<dots> = mset ?viewed" by (rule mset_sorted_reverse)
    finally show ?thesis by (simp add: f)
  qed
  moreover have "\<forall>q\<in>set (drop 4 ?s). \<forall>p\<in>set (featured_products products).
                   views_key q \<le> views_key p"
  proof -
    from d have "sorted_wrt (\<lambda>a b. views_key b \<le> views_key a) (take 4 ?s @ drop 4 ?s)"
      by simp
    then show ?thesis
      unfolding f sorted_wrt_append by blast
  qed
  ultimately show ?thesis by blast
qed

theorem featured_products_top_witness:
  "featured_products sample_products =
     [item 4 1 (Some 9) (Some ''/uploads/lost.webp''), item 7 2 (Some 9) None,
      item 6 2 (Some 7) None, item 1 1 (Some 5) (Some ''/uploads/product_1.webp'')] \<and>
   length (featured_products sample_products) \<le> 4 \<and>
   sorted_wrt (\<lambda>a b. views_key b \<le> views_key a) (featured_products sample_products) \<and>
   (\<exists>excluded.
      mset (featured_products sample_products) + mset excluded =
        mset (filter (\<lambda>p. p_views p \<noteq> None) sample_products) \<and>
      (\<forall>q\<in>set excluded. \<forall>p\<in>set (featured_products sample_products).
         views_key q \<le> views_key p))"
proof -
  have "featured_products sample_products =
     [item 4 1 (Some 9) (Some ''/uploads/lost.webp''), item 7 2 (Some 9) None,
      item 6 2 (Some 7) None, item 1 1 (Some 5) (Some ''/uploads/product_1.webp'')]"
    by (simp add: featured_products_def sorted_reverse_def views_key_def sample_products_def
        item_def)
  then show ?thesis
    using featured_products_top [of sample_products] by simp
qed

subsection \<open>Deleting a category\<close>








subsection \<open>A missing image file\<close>

lemma remove_image_missing:
  "os_remove (image_file lib url) dir = Inl FileNotFoundError \<Longrightarrow>
     remove_image lib (Some url) dir = Inr dir"
  by (simp add: remove_image_def)

text \<open>
  C7. When the old image file of the product, or of the category, is not in the upload
  folder, so that \<open>os.remove\<close> raises FileNotFoundError, the handlers go on as if
  nothing had happened: \<open>delete_product\<close> saves the collection without the product,
  and \<open>edit_product\<close> and \<open>edit_category\<close>, given a form that parses and a new image,
  save the new image and the edited record, and all three answer with their success
  message.
\<close>

theorem missing_image_file_ignored:
  "(load_products w = Inr (products, w1) \<and>
    find (\<lambda>p. p_id p = product_id) products = Some product \<and>
    p_image product = Some url \<and> url \<noteq> [] \<and>
    os_remove (image_file lib url) (uploads w) = Inl FileNotFoundError \<longrightarrow>
      delete_product lib product_id w =
        (Redirect Admin [ProductDeleted],
         w\<lparr>products_file := Json (filter (\<lambda>p. p_id p \<noteq> product_id) products)\<rparr>) \<and>
      (uploaded_image req = Some upload \<and>
       read_product_form lib req = Inr (name, description, price, category_id) \<and>
       save_image lib upload (uploads w)
         (''product_'' @ str lib product_id @ ''_'' @ str lib now)
         = ((new_filename, converted), dir) \<longrightarrow>
         (\<exists>i<length products.
            products ! i = product \<and> (\<forall>j<i. p_id (products ! j) \<noteq> product_id) \<and>
            edit_product lib now POST req product_id w =
              (Redirect Admin (warnings converted @ [ProductUpdated]),
               w\<lparr>uploads := dir,
                  products_file :=
                    Json (products[i := product
                            \<lparr>p_name := name, p_description := description, p_price := price,
                             p_category_id := Some category_id,
                             p_image := Some (url_for_uploaded_file lib new_filename)\<rparr>])\<rparr>)))) \<and>
   (load_categories w = Inr (categories, w2) \<and>
    find (\<lambda>c. c_id c = cid) categories = Some category \<and>
    c_image category = Some curl \<and> curl \<noteq> [] \<and>
    os_remove (image_file lib curl) (uploads w) = Inl FileNotFoundError \<and>
    uploaded_image req = Some upload \<and> form_name req = Some cname \<and>
    save_image lib upload (uploads w) (''category_'' @ str lib cid @ ''_'' @ str lib now)
      = ((new_filename', converted'), dir') \<longrightarrow>
      (\<exists>i<length categories.
         categories ! i = category \<and> (\<forall>j<i. c_id (categories ! j) \<noteq> cid) \<and>
         edit_category lib now POST req cid w =
           (Redirect ManageCategories (warnings converted' @ [CategoryUpdated]),
            w\<lparr>uploads := dir',
               categories_file :=
                 Json (categories[i := category
                         \<lparr>c_name := cname,
                          c_image := Some (url_for_uploaded_file lib new_filename')\<rparr>])\<rparr>)))"
proof (intro conjI impI)
  assume a: "load_products w = Inr (products, w1) \<and>
    find (\<lambda>p. p_id p = product_id) products = Some product \<and>
    p_image product = Some url \<and> url \<noteq> [] \<and>
    os_remove (image_file lib url) (uploads w) = Inl FileNotFoundError"
  then have w1: "w1 = w\<lparr>products_file := Json products\<rparr>"
    by (simp add: load_products_world)
  from a have "products \<noteq> []" by auto
  with a have same: "w\<lparr>products_file := Json products\<rparr> = w"
    by (auto simp: load_products_def save_products_def split: json_file.splits)
  from a have r: "remove_image lib (p_image product) (uploads w) = Inr (uploads w)"
    by (simp add: remove_image_missing)
  show "delete_product lib product_id w =
        (Redirect Admin [ProductDeleted],
         w\<lparr>products_file := Json (filter (\<lambda>p. p_id p \<noteq> product_id) products)\<rparr>)"
    using a w1 r same by (simp add: delete_product_def save_products_def)
next
  assume a: "load_products w = Inr (products, w1) \<and>
    find (\<lambda>p. p_id p = product_id) products = Some product \<and>
    p_image product = Some url \<and> url \<noteq> [] \<and>
    os_remove (image_file lib url) (uploads w) = Inl FileNotFoundError"
    and b: "uploaded_image req = Some upload \<and>
       read_product_form lib req = Inr (name, description, price, category_id) \<and>
       save_image lib upload (uploads w)
         (''product_'' @ str lib product_id @ ''_'' @ str lib now)
         = ((new_filename, converted), dir)"
  let ?f = "\<lambda>p. p\<lparr>p_name := name, p_description := description, p_price := price,
                    p_category_id := Some category_id,
                    p_image := Some (url_for_uploaded_file lib new_filename)\<rparr>"
  from a have w1: "w1 = w\<lparr>products_file := Json products\<rparr>"
    by (simp add: load_products_world)
  from a have r: "remove_image lib (p_image product) (uploads w) = Inr (uploads w)"
    by (simp add: remove_image_missing)
  from a have x: "find (\<lambda>p. p_id p = product_id) products = Some product" by simp
  from update_first_find_Some [OF x, of ?f]
  obtain i where i: "i < length products" "products ! i = product"
    "\<forall>j<i. p_id (products ! j) \<noteq> product_id"
    "update_first (\<lambda>p. p_id p = product_id) ?f products = products[i := ?f product]"
    by blast
  have "edit_product lib now POST req product_id w =
          (Redirect Admin (warnings converted @ [ProductUpdated]),
           w\<lparr>uploads := dir, products_file := Json (products[i := ?f product])\<rparr>)"
    using a b w1 r i(4) by (simp add: edit_product_def save_products_def)
  with i show "\<exists>i<length products.
            products ! i = product \<and> (\<forall>j<i. p_id (products ! j) \<noteq> product_id) \<and>
            edit_product lib now POST req product_id w =
              (Redirect Admin (warnings converted @ [ProductUpdated]),
               w\<lparr>uploads := dir,
                  products_file :=
                    Json (products[i := product
                            \<lparr>p_name := name, p_description := description, p_price := price,
                             p_category_id := Some category_id,
                             p_image := Some (url_for_uploaded_file lib new_filename)\<rparr>])\<rparr>)"
    by blast
next
  assume a: "load_categories w = Inr (categories, w2) \<and>
    find (\<lambda>c. c_id c = cid) categories = Some category \<and>
    c_image category = Some curl \<and> curl \<noteq> [] \<and>
    os_remove (image_file lib curl) (uploads w) = Inl FileNotFoundError \<and>
    uploaded_image req = Some upload \<and> form_name req = Some cname \<and>
    save_image lib upload (uploads w) (''category_'' @ str lib cid @ ''_'' @ str lib now)
      = ((new_filename', converted'), dir')"
  let ?f = "\<lambda>c. c\<lparr>c_name := cname,
                    c_image := Some (url_for_uploaded_file lib new_filename')\<rparr>"
  from a have w2: "w2 = w\<lparr>categories_file := Json categories\<rparr>"
    by (simp add: load_categories_world)
  from a have r: "remove_image lib (c_image category) (uploads w) = Inr (uploads w)"
    by (simp add: remove_image_missing)
  from a have x: "find (\<lambda>c. c_id c = cid) categories = Some category" by simp
  from update_first_find_Some [OF x, of ?f]
  obtain i where i: "i < length categories" "categories ! i = category"
    "\<forall>j<i. c_id (categories ! j) \<noteq> cid"
    "update_first (\<lambda>c. c_id c = cid) ?f categories = categories[i := ?f category]"
    by blast
  have "edit_category lib now POST req cid w =
          (Redirect ManageCategories (warnings converted' @ [CategoryUpdated]),
           w\<lparr>uploads := dir', categories_file := Json (categories[i := ?f category])\<rparr>)"
    using a w2 r i(4) by (simp add: edit_category_def save_categories_def)
  with i show "\<exists>i<length categories.
         categories ! i = category \<and> (\<forall>j<i. c_id (categories ! j) \<noteq> cid) \<and>
         edit_category lib now POST req cid w =
           (Redirect ManageCategories (warnings converted' @ [CategoryUpdated]),
            w\<lparr>uploads := dir',
               categories_file :=
                 Json (categories[i := category
                         \<lparr>c_name := cname,
                          c_image := Some (url_for_uploaded_file lib new_filename')\<rparr>])\<rparr>)"
    by blast
qed

theorem missing_image_file_ignored_witness:
  "load_products sample_world = Inr (sample_products, sample_world) \<and>
   find (\<lambda>p. p_id p = 4) sample_products =
     Some (item 4 1 (Some 9) (Some ''/uploads/lost.webp'')) \<and>
   os_remove (image_file sample_lib ''/uploads/lost.webp'') (uploads sample_world) =
     Inl FileNotFoundError \<and>
   delete_product sample_lib 4 sample_world =
     (Redirect Admin [ProductDeleted],
      sample_world\<lparr>products_file := Json (filter (\<lambda>p. p_id p \<noteq> 4) sample_products)\<rparr>) \<and>
   filter (\<lambda>p. p_id p \<noteq> 4) sample_products =
     [item 1 1 (Some 5) (Some ''/uploads/product_1.webp''),
      item 2 2 None (Some ''/uploads/product_2.png''),
      item 5 2 (Some 0) None, item 6 2 (Some 7) None, item 7 2 (Some 9) None,
      item 8 2 (Some 2) None] \<and>
   save_image sample_lib \<lparr>filename = ''Mug.PNG'', content = ''truecolour''\<rparr>
       (uploads sample_world) (''product_'' @ str sample_lib 4 @ ''_'' @ str sample_lib 1700000000)
     = ((''product_4_1700000000.webp'', True),
        sample_uploads(''product_4_1700000000.webp'' \<mapsto> ''webp:RGB'')) \<and>
   edit_product sample_lib 1700000000 POST sample_request 4 sample_world =
     (Redirect Admin [ProductUpdated],
      sample_world
        \<lparr>uploads := sample_uploads(''product_4_1700000000.webp'' \<mapsto> ''webp:RGB''),
         products_file :=
           Json (sample_products
                   [2 := \<lparr>p_id = 4, p_name = ''mug'', p_description = ''a mug'', p_price = 12,
                          p_image = Some ''/uploads/product_4_1700000000.webp'',
                          p_category_id = Some 2, p_views = Some 9\<rparr>])\<rparr>) \<and>
   os_remove (image_file sample_lib ''/uploads/gone.webp'') (uploads sample_world) =
     Inl FileNotFoundError \<and>
   edit_category sample_lib 1700000000 POST sample_request 2 sample_world =
     (Redirect ManageCategories [CategoryUpdated],
      sample_world
        \<lparr>uploads := sample_uploads(''category_2_1700000000.webp'' \<mapsto> ''webp:RGB''),
         categories_file :=
           Json (sample_categories
                   [1 := \<lparr>c_id = 2, c_name = ''mug'',
                          c_image = Some ''/uploads/category_2_1700000000.webp''\<rparr>])\<rparr>)"
proof -
  have l1: "load_products sample_world = Inr (sample_products, sample_world)"
    by (simp add: load_products_def sample_world_def)
  have l2: "load_categories sample_world = Inr (sample_categories, sample_world)"
    by (simp add: load_categories_def sample_world_def)
  have up: "uploads sample_world = sample_uploads"
    by (simp add: sample_world_def)
  have f4: "find (\<lambda>p. p_id p = 4) sample_products =
              Some (item 4 1 (Some 9) (Some ''/uploads/lost.webp''))"
    by (simp add: sample_products_def item_def)
  have f2: "find (\<lambda>c. c_id c = 2) sample_categories =
              Some \<lparr>c_id = 2, c_name = ''garden'', c_image = Some ''/uploads/gone.webp''\<rparr>"
    by (simp add: sample_categories_def)
  have lost: "os_remove (image_file sample_lib ''/uploads/lost.webp'') (uploads sample_world)
                = Inl FileNotFoundError"
    by (simp add: os_remove_def image_file_def sample_lib_defs up sample_uploads_def)
  have gone: "os_remove (image_file sample_lib ''/uploads/gone.webp'') (uploads sample_world)
                = Inl FileNotFoundError"
    by (simp add: os_remove_def image_file_def sample_lib_defs up sample_uploads_def)
  have rest: "filter (\<lambda>p. p_id p \<noteq> 4) sample_products =
     [item 1 1 (Some 5) (Some ''/uploads/product_1.webp''),
      item 2 2 None (Some ''/uploads/product_2.png''),
      item 5 2 (Some 0) None, item 6 2 (Some 7) None, item 7 2 (Some 9) None,
      item 8 2 (Some 2) None]"
    by (simp add: sample_products_def item_def)
  have stamp: "str sample_lib 1700000000 = ''1700000000''" "str sample_lib 4 = ''4''"
    "str sample_lib 2 = ''2''"
    by (simp_all add: sample_lib_defs)
  have u: "uploaded_image sample_request =
             Some \<lparr>filename = ''Mug.PNG'', content = ''truecolour''\<rparr>"
    by (simp add: uploaded_image_def sample_request_def)
  have form: "read_product_form sample_lib sample_request = Inr (''mug'', ''a mug'', 12, 2)"
    by (simp add: read_product_form_def sample_request_def sample_lib_defs)
  have n: "form_name sample_request = Some ''mug''"
    by (simp add: sample_request_def)
  have s1: "save_image sample_lib \<lparr>filename = ''Mug.PNG'', content = ''truecolour''\<rparr>
       (uploads sample_world) (''product_'' @ str sample_lib 4 @ ''_'' @ str sample_lib 1700000000)
     = ((''product_4_1700000000.webp'', True),
        sample_uploads(''product_4_1700000000.webp'' \<mapsto> ''webp:RGB''))"
    unfolding stamp up
    by (simp add: save_image_def original_extension_def supported_formats_for_conversion_def
        convert_to_webp_def normalise_mode_def Let_def sample_lib_def ascii_lower_def
        last_dot_ext_def)
  have s2: "save_image sample_lib \<lparr>filename = ''Mug.PNG'', content = ''truecolour''\<rparr>
       (uploads sample_world) (''category_'' @ str sample_lib 2 @ ''_'' @ str sample_lib 1700000000)
     = ((''category_2_1700000000.webp'', True),
        sample_uploads(''category_2_1700000000.webp'' \<mapsto> ''webp:RGB''))"
    unfolding stamp up
    by (simp add: save_image_def original_extension_def supported_formats_for_conversion_def
        convert_to_webp_def normalise_mode_def Let_def sample_lib_def ascii_lower_def
        last_dot_ext_def)
  have url: "url_for_uploaded_file sample_lib name = ''/uploads/'' @ name" for name
    by (simp add: sample_lib_def)
  note inst = missing_image_file_ignored
    [where w = sample_world and products = sample_products and ?w1.0 = sample_world
       and product_id = 4 and product = "item 4 1 (Some 9) (Some ''/uploads/lost.webp'')"
       and url = "''/uploads/lost.webp''" and lib = sample_lib and req = sample_request
       and upload = "\<lparr>filename = ''Mug.PNG'', content = ''truecolour''\<rparr>"
       and name = "''mug''" and description = "''a mug''" and price = 12
       and category_id = 2 and now = 1700000000
       and new_filename = "''product_4_1700000000.webp''" and converted = True
       and dir = "sample_uploads(''product_4_1700000000.webp'' \<mapsto> ''webp:RGB'')"
       and categories = sample_categories and ?w2.0 = sample_world and cid = 2
       and category = "\<lparr>c_id = 2, c_name = ''garden'', c_image = Some ''/uploads/gone.webp''\<rparr>"
       and curl = "''/uploads/gone.webp''" and cname = "''mug''"
       and new_filename' = "''category_2_1700000000.webp''" and converted' = True
       and dir' = "sample_uploads(''category_2_1700000000.webp'' \<mapsto> ''webp:RGB'')"]
  have img: "p_image (item 4 1 (Some 9) (Some ''/uploads/lost.webp'')) = Some ''/uploads/lost.webp''"
    by (simp add: item_def)
  from inst l1 l2 f4 f2 lost gone u form n s1 s2 img
  have d: "delete_product sample_lib 4 sample_world =
     (Redirect Admin [ProductDeleted],
      sample_world\<lparr>products_file := Json (filter (\<lambda>p. p_id p \<noteq> 4) sample_products)\<rparr>)"
    and e: "\<exists>i<length sample_products.
            sample_products ! i = item 4 1 (Some 9) (Some ''/uploads/lost.webp'') \<and>
            (\<forall>j<i. p_id (sample_products ! j) \<noteq> 4) \<and>
            edit_product sample_lib 1700000000 POST sample_request 4 sample_world =
              (Redirect Admin (warnings True @ [ProductUpdated]),
               sample_world\<lparr>uploads := sample_uploads(''product_4_1700000000.webp'' \<mapsto> ''webp:RGB''),
                  products_file :=
                    Json (sample_products[i := item 4 1 (Some 9) (Some ''/uploads/lost.webp'')
                            \<lparr>p_name := ''mug'', p_description := ''a mug'', p_price := 12,
                             p_category_id := Some 2,
                             p_image := Some (url_for_uploaded_file sample_lib
                                ''product_4_1700000000.webp'')\<rparr>])\<rparr>)"
    and c: "\<exists>i<length sample_categories.
         sample_categories ! i =
           \<lparr>c_id = 2, c_name = ''garden'', c_image = Some ''/uploads/gone.webp''\<rparr> \<and>
         (\<forall>j<i. c_id (sample_categories ! j) \<noteq> 2) \<and>
         edit_category sample_lib 1700000000 POST sample_request 2 sample_world =
           (Redirect ManageCategories (warnings True @ [CategoryUpdated]),
            sample_world\<lparr>uploads := sample_uploads(''category_2_1700000000.webp'' \<mapsto> ''webp:RGB''),
               categories_file :=
                 Json (sample_categories[i :=
                        \<lparr>c_id = 2, c_name = ''garden'', c_image = Some ''/uploads/gone.webp''\<rparr>
                         \<lparr>c_name := ''mug'',
                          c_image := Some (url_for_uploaded_file sample_lib
                             ''category_2_1700000000.webp'')\<rparr>])\<rparr>)"
    by simp_all
  from e obtain i where i: "i < length sample_products"
    "sample_products ! i = item 4 1 (Some 9) (Some ''/uploads/lost.webp'')"
    and ei: "edit_product sample_lib 1700000000 POST sample_request 4 sample_world =
              (Redirect Admin (warnings True @ [ProductUpdated]),
               sample_world\<lparr>uploads := sample_uploads(''product_4_1700000000.webp'' \<mapsto> ''webp:RGB''),
                  products_file :=
                    Json (sample_products[i := item 4 1 (Some 9) (Some ''/uploads/lost.webp'')
                            \<lparr>p_name := ''mug'', p_description := ''a mug'', p_price := 12,
                             p_category_id := Some 2,
                             p_image := Some (url_for_uploaded_file sample_lib
                                ''product_4_1700000000.webp'')\<rparr>])\<rparr>)"
    by blast
  from i have "i = 2"
    by (auto simp: sample_products_def item_def nth_Cons' split: if_splits)
  with ei have e': "edit_product sample_lib 1700000000 POST sample_request 4 sample_world =
     (Redirect Admin [ProductUpdated],
      sample_world
        \<lparr>uploads := sample_uploads(''product_4_1700000000.webp'' \<mapsto> ''webp:RGB''),
         products_file :=
           Json (sample_products
                   [2 := \<lparr>p_id = 4, p_name = ''mug'', p_description = ''a mug'', p_price = 12,
                          p_image = Some ''/uploads/product_4_1700000000.webp'',
                          p_category_id = Some 2, p_views = Some 9\<rparr>])\<rparr>)"
    by (simp add: warnings_def url item_def)
  from c obtain k where k: "k < length sample_categories"
    "sample_categories ! k =
       \<lparr>c_id = 2, c_name = ''garden'', c_image = Some ''/uploads/gone.webp''\<rparr>"
    and ck: "edit_category sample_lib 1700000000 POST sample_request 2 sample_world =
           (Redirect ManageCategories (warnings True @ [CategoryUpdated]),
            sample_world\<lparr>uploads := sample_uploads(''category_2_1700000000.webp'' \<mapsto> ''webp:RGB''),
               categories_file :=
                 Json (sample_categories[k :=
                        \<lparr>c_id = 2, c_name = ''garden'', c_image = Some ''/uploads/gone.webp''\<rparr>
                         \<lparr>c_name := ''mug'',
                          c_image := Some (url_for_uploaded_file sample_lib
                             ''category_2_1700000000.webp'')\<rparr>])\<rparr>)"
    by blast
  from k have "k = 1"
    by (auto simp: sample_categories_def nth_Cons' split: if_splits)
  with ck have c': "edit_category sample_lib 1700000000 POST sample_request 2 sample_world =
     (Redirect ManageCategories [CategoryUpdated],
      sample_world
        \<lparr>uploads := sample_uploads(''category_2_1700000000.webp'' \<mapsto> ''webp:RGB''),
         categories_file :=
           Json (sample_categories
                   [1 := \<lparr>c_id = 2, c_name = ''mug'',
                          c_image = Some ''/uploads/category_2_1700000000.webp''\<rparr>])\<rparr>)"
    by (simp add: warnings_def url)
  show ?thesis
    using l1 f4 lost d rest s1 e' gone c' by simp
qed

subsection \<open>Referential integrity\<close>















end
